theory Spec2Isabelle
  imports Complex_Main "HOL-Library.Multiset" "HOL-Library.Sublist"
begin

section \<open>NaviHive: sort sessions, order commits and data import/export\<close>

text \<open>
  A shallow embedding of the reorder and import/export logic of the navigation dashboard:
  the \<open>App\<close> component (\<open>src/App.tsx\<close>) and the \<open>GroupCard\<close> component.
  React state is a record; every handler is a function from the state before the call to
  the state after it. An awaited API call is a parameter of the handler: what the server
  answers (\<open>Returns v\<close>) or the error it rejects with (\<open>Throws msg\<close>).

  The user-facing message literals of the source are Chinese; they are rendered here in
  English, one literal each, since only their identity matters.
\<close>

subsection \<open>Entities\<close>

text \<open>
  \<open>Site\<close> and \<open>Group\<close> are imported by the source from \<open>API/http\<close>; their fields are
  the ones the components read and write. \<open>id\<close> is optional on both (\<open>site.id!\<close>,
  \<open>group.id !== undefined\<close>); \<open>GroupWithSites\<close> is a group whose id is known, with its sites.
\<close>

record Site =
  s_id :: "nat option"
  s_group_id :: nat
  s_name :: string
  s_url :: string
  s_icon :: "string option"
  s_description :: "string option"
  s_notes :: "string option"
  s_order_num :: int

record Group =
  g_id :: "nat option"
  g_name :: string
  g_order_num :: int

record GroupWithSites =
  gw_id :: nat
  gw_name :: string
  gw_order_num :: int
  gw_sites :: "Site list"

datatype SortMode = NoneMode | GroupSort | SiteSort

subsection \<open>JavaScript primitives\<close>

datatype 'a outcome = Returns 'a | Throws string

text \<open>\<open>Array.prototype.map\<close> with the index argument.\<close>

fun map_index :: "('a \<Rightarrow> nat \<Rightarrow> 'b) \<Rightarrow> nat \<Rightarrow> 'a list \<Rightarrow> 'b list" where
  "map_index f i [] = []"
| "map_index f i (x # xs) = f x i # map_index f (Suc i) xs"

text \<open>\<open>Array.prototype.findIndex\<close>; \<open>None\<close> is the source's \<open>-1\<close>.\<close>

fun findIndex :: "('a \<Rightarrow> bool) \<Rightarrow> 'a list \<Rightarrow> nat option" where
  "findIndex p [] = None"
| "findIndex p (x # xs) =
     (if p x then Some 0 else (case findIndex p xs of None \<Rightarrow> None | Some i \<Rightarrow> Some (Suc i)))"

text \<open>\<open>Number.prototype.toString\<close> on a natural number: its decimal digits.\<close>

definition digit :: "nat \<Rightarrow> char" where
  "digit d = char_of (48 + d)"

fun toString :: "nat \<Rightarrow> string" where
  "toString n = (if n < 10 then [digit n] else toString (n div 10) @ [digit (n mod 10)])"

declare toString.simps [simp del]

text \<open>\<open>String.prototype.includes\<close>.\<close>

fun js_includes :: "string \<Rightarrow> string \<Rightarrow> bool" where
  "js_includes [] sub = (sub = [])"
| "js_includes (c # cs) sub = (prefix sub (c # cs) \<or> js_includes cs sub)"

text \<open>
  \<open>Promise.all\<close> over calls answered in list order: the results, or the first rejection.
\<close>

fun promise_all :: "'a outcome list \<Rightarrow> 'a list outcome" where
  "promise_all [] = Returns []"
| "promise_all (Throws e # rest) = Throws e"
| "promise_all (Returns x # rest) =
     (case promise_all rest of Throws e \<Rightarrow> Throws e | Returns xs \<Rightarrow> Returns (x # xs))"

text \<open>
  Modelled from the spec: \<open>arrayMove\<close> is imported from the drag-and-drop library
  (\<open>@dnd-kit/sortable\<close>), whose code is not part of the sources. Section 4.2 of the spec:
  it removes the element at \<open>from\<close> and reinserts it at \<open>to\<close>, shifting the elements
  in between, on a copy of the array. Both handlers call it only with indices that
  \<open>findIndex\<close> has found; with \<open>from\<close> out of range there is no element to move and the
  copy is returned as it is.
\<close>

definition arrayMove :: "'a list \<Rightarrow> nat \<Rightarrow> nat \<Rightarrow> 'a list" where
  "arrayMove array from to =
     (case drop from array of
        [] \<Rightarrow> array
      | x # after \<Rightarrow> (let rest = take from array @ after in take to rest @ x # drop to rest))"

text \<open>
  A parsed JSON value, as \<open>JSON.parse\<close> returns it; an object is the list of its
  entries, in which a key occurs once. \<open>None\<close> of type \<open>json option\<close> is JavaScript's
  \<open>undefined\<close>.
\<close>

datatype json =
    JNull
  | JBool bool
  | JNum rat
  | JStr string
  | JArr "json list"
  | JObj "(string \<times> json) list"

text \<open>
  Reading a property: \<open>null.key\<close> throws a TypeError, a key that is not there reads as
  \<open>undefined\<close>. Used only at the keys \<open>groups\<close>, \<open>sites\<close> and \<open>configs\<close>, which no
  prototype defines, so only an object's own entries can answer.
\<close>

fun getProp :: "json \<Rightarrow> string \<Rightarrow> json option outcome" where
  "getProp JNull key = Throws (''Cannot read properties of null (reading '' @ key @ '')'')"
| "getProp (JObj entries) key = Returns (map_of entries key)"
| "getProp other key = Returns None"

text \<open>Truthiness (what \<open>!v\<close> negates), \<open>Array.isArray\<close> and \<open>typeof\<close>.\<close>

fun truthy :: "json option \<Rightarrow> bool" where
  "truthy None = False"
| "truthy (Some JNull) = False"
| "truthy (Some (JBool b)) = b"
| "truthy (Some (JNum n)) = (n \<noteq> 0)"
| "truthy (Some (JStr s)) = (s \<noteq> [])"
| "truthy (Some (JArr xs)) = True"
| "truthy (Some (JObj entries)) = True"

fun isArray :: "json option \<Rightarrow> bool" where
  "isArray (Some (JArr xs)) = True"
| "isArray other = False"

fun typeof :: "json option \<Rightarrow> string" where
  "typeof None = ''undefined''"
| "typeof (Some JNull) = ''object''"
| "typeof (Some (JBool b)) = ''boolean''"
| "typeof (Some (JNum n)) = ''number''"
| "typeof (Some (JStr s)) = ''string''"
| "typeof (Some (JArr xs)) = ''object''"
| "typeof (Some (JObj entries)) = ''object''"

text \<open>Writing one key of an object (\<open>{...base, key: value}\<close>), and the object spread.\<close>

fun setKey :: "string \<Rightarrow> 'v \<Rightarrow> (string \<times> 'v) list \<Rightarrow> (string \<times> 'v) list" where
  "setKey key v [] = [(key, v)]"
| "setKey key v ((k, w) # rest) = (if k = key then (key, v) # rest else (k, w) # setKey key v rest)"

definition objSpread :: "(string \<times> 'v) list \<Rightarrow> (string \<times> 'v) list \<Rightarrow> (string \<times> 'v) list" where
  "objSpread base over = fold (\<lambda>(key, v) obj. setKey key v obj) over base"

subsection \<open>The storage client\<close>

text \<open>
  The answers of the API client \<open>api\<close> to the calls the handlers make. An order update
  takes the list of \<open>{id, order_num}\<close> pairs.
\<close>

text \<open>The answer of \<open>api.importData\<close>: \<open>{success, error?, stats?}\<close>.\<close>

record ImportStats =
  groups_total :: nat
  groups_created :: nat
  groups_merged :: nat
  sites_total :: nat
  sites_created :: nat
  sites_updated :: nat
  sites_skipped :: nat

record ImportResult =
  success :: bool
  result_error :: "string option"
  stats :: "ImportStats option"

record api_client =
  updateGroupOrder :: "(nat \<times> nat) list \<Rightarrow> bool outcome"
  updateSiteOrder :: "(nat option \<times> nat) list \<Rightarrow> bool outcome"
  getGroups :: "Group list outcome"
  getSites :: "nat \<Rightarrow> Site list outcome"
  getConfigs :: "(string \<times> string) list outcome"
  importData :: "json \<Rightarrow> ImportResult outcome"

subsection \<open>State of the App component\<close>

record app_state =
  groups :: "GroupWithSites list"
  loading :: bool
  error :: "string option"
  sortMode :: SortMode
  currentSortingGroupId :: "nat option"
  isAuthChecking :: bool
  isAuthRequired :: bool
  isAuthenticated :: bool
  configs :: "(string \<times> string) list"
  tempConfigs :: "(string \<times> string) list"
  menuOpen :: bool
  openImport :: bool
  importLoading :: bool
  importError :: "string option"
  snackbarOpen :: bool
  snackbarMessage :: string
  importResultOpen :: bool
  importResultMessage :: string

definition handleError :: "string \<Rightarrow> app_state \<Rightarrow> app_state" where
  "handleError errorMessage s = s\<lparr>snackbarMessage := errorMessage, snackbarOpen := True\<rparr>"

text \<open>The marker the source looks for in an error message to recognise an authentication failure.\<close>

definition auth_marker :: string where
  "auth_marker = ''authentication''"

text \<open>
  \<open>fetchData\<close>: the groups that have an id, each with its sites, replace \<open>groups\<close>;
  any rejection is caught and reported, and \<open>groups\<close> is then left as it was.
\<close>

definition groupsWithSites :: "api_client \<Rightarrow> Group list \<Rightarrow> GroupWithSites list outcome" where
  "groupsWithSites api groupsData =
     promise_all (concat (map (\<lambda>group.
        (case g_id group of
           None \<Rightarrow> []
         | Some i \<Rightarrow>
             [case getSites api i of
                Throws e \<Rightarrow> Throws e
              | Returns sites \<Rightarrow>
                  Returns \<lparr>gw_id = i, gw_name = g_name group,
                           gw_order_num = g_order_num group, gw_sites = sites\<rparr>])) groupsData))"

definition fetchFailed :: "string \<Rightarrow> app_state \<Rightarrow> app_state" where
  "fetchFailed msg s =
     (let s1 = handleError (''Loading data failed: '' @ msg) s;
          s2 = (if js_includes msg auth_marker
                then s1\<lparr>isAuthRequired := True, isAuthenticated := False\<rparr> else s1)
      in s2\<lparr>loading := False\<rparr>)"

definition fetchData :: "api_client \<Rightarrow> app_state \<Rightarrow> app_state" where
  "fetchData api s =
     (let s1 = s\<lparr>loading := True, error := None\<rparr> in
      case getGroups api of
        Throws e \<Rightarrow> fetchFailed e s1
      | Returns groupsData \<Rightarrow>
          (case groupsWithSites api groupsData of
             Throws e \<Rightarrow> fetchFailed e s1
           | Returns gs \<Rightarrow> s1\<lparr>groups := gs, loading := False\<rparr>))"

subsection \<open>Order commit\<close>

text \<open>The \<open>{id, order_num}\<close> pairs built by the two save handlers.\<close>

definition groupOrders :: "GroupWithSites list \<Rightarrow> (nat \<times> nat) list" where
  "groupOrders gs = map_index (\<lambda>group index. (gw_id group, index)) 0 gs"

definition siteOrders :: "Site list \<Rightarrow> (nat option \<times> nat) list" where
  "siteOrders sites = map_index (\<lambda>site index. (s_id site, index)) 0 sites"

text \<open>The two resets at the end of the \<open>try\<close> block of both save handlers.\<close>

definition resetSort :: "app_state \<Rightarrow> app_state" where
  "resetSort s = s\<lparr>sortMode := NoneMode, currentSortingGroupId := None\<rparr>"

text \<open>
  \<open>handleSaveGroupOrder\<close>: a \<open>false\<close> answer is turned into a thrown error; the two
  state resets stand after the \<open>if\<close>, inside the \<open>try\<close>, so a throw skips them.
\<close>

definition handleSaveGroupOrder :: "api_client \<Rightarrow> app_state \<Rightarrow> app_state" where
  "handleSaveGroupOrder api s =
     (case updateGroupOrder api (groupOrders (groups s)) of
        Throws e \<Rightarrow> handleError (''Updating the group order failed: '' @ e) s
      | Returns result \<Rightarrow>
          (if result then resetSort (fetchData api s)
           else handleError (''Updating the group order failed: '' @ ''Group order update failed'') s))"

definition handleSaveSiteOrder :: "api_client \<Rightarrow> nat \<Rightarrow> Site list \<Rightarrow> app_state \<Rightarrow> app_state" where
  "handleSaveSiteOrder api groupId sites s =
     (case updateSiteOrder api (siteOrders sites) of
        Throws e \<Rightarrow> handleError (''Updating the site order failed: '' @ e) s
      | Returns result \<Rightarrow>
          (if result then resetSort (fetchData api s)
           else handleError (''Updating the site order failed: '' @ ''Site order update failed'') s))"

subsection \<open>Sort sessions\<close>

definition startGroupSort :: "app_state \<Rightarrow> app_state" where
  "startGroupSort s = s\<lparr>sortMode := GroupSort, currentSortingGroupId := None\<rparr>"

definition startSiteSort :: "nat \<Rightarrow> app_state \<Rightarrow> app_state" where
  "startSiteSort groupId s = s\<lparr>sortMode := SiteSort, currentSortingGroupId := Some groupId\<rparr>"

definition cancelSort :: "app_state \<Rightarrow> app_state" where
  "cancelSort s = s\<lparr>sortMode := NoneMode, currentSortingGroupId := None\<rparr>"

text \<open>
  A drag-end event: the identifier of the dragged item (\<open>active.id\<close>) and of the item it
  was dropped over (\<open>over.id\<close>); \<open>over\<close> is \<open>null\<close> when it was dropped over none.
\<close>

record DragEndEvent =
  active :: string
  over :: "string option"

text \<open>
  \<open>handleDragEnd\<close> of the App component: the moved list is written to \<open>groups\<close> itself.
\<close>

definition handleDragEnd :: "DragEndEvent \<Rightarrow> app_state \<Rightarrow> app_state" where
  "handleDragEnd event s =
     (case over event of
        None \<Rightarrow> s
      | Some overId \<Rightarrow>
          (if active event \<noteq> overId then
             (case (findIndex (\<lambda>group. toString (gw_id group) = active event) (groups s),
                    findIndex (\<lambda>group. toString (gw_id group) = overId) (groups s)) of
                (Some oldIndex, Some newIndex) \<Rightarrow>
                   s\<lparr>groups := arrayMove (groups s) oldIndex newIndex\<rparr>
              | _ \<Rightarrow> s)
           else s))"

subsection \<open>The GroupCard component\<close>

text \<open>
  A card keeps the list being rearranged in its own state \<open>sites\<close>, seeded from the
  \<open>group\<close> it is given when it is mounted; outside its own sort session it renders
  \<open>group.sites\<close>. (The cards are taken off the screen while \<open>loading\<close> is set and
  mounted anew afterwards; the handlers below are those of a mounted card.)
\<close>

record card_state =
  card_sites :: "Site list"
  card_snackbarOpen :: bool
  card_snackbarMessage :: string
  isCollapsed :: bool

text \<open>The sortable identifier of a site: the template string \<open>site-${site.id}\<close>.\<close>

definition siteKey :: "Site \<Rightarrow> string" where
  "siteKey site = ''site-'' @ (case s_id site of None \<Rightarrow> ''undefined'' | Some i \<Rightarrow> toString i)"

definition handleSiteDragEnd :: "DragEndEvent \<Rightarrow> card_state \<Rightarrow> card_state" where
  "handleSiteDragEnd event c =
     (case over event of
        None \<Rightarrow> c
      | Some overId \<Rightarrow>
          (if active event \<noteq> overId then
             (case (findIndex (\<lambda>site. siteKey site = active event) (card_sites c),
                    findIndex (\<lambda>site. siteKey site = overId) (card_sites c)) of
                (Some oldIndex, Some newIndex) \<Rightarrow>
                   c\<lparr>card_sites := arrayMove (card_sites c) oldIndex newIndex\<rparr>
              | _ \<Rightarrow> c)
           else c))"

text \<open>
  The card's \<open>handleSaveSiteOrder\<close> hands its own list to the App's handler;
  \<open>handleSortClick\<close> warns and returns when the group has fewer than two sites, and
  otherwise calls the App's \<open>startSiteSort\<close>.
\<close>

definition cardSaveSiteOrder ::
  "api_client \<Rightarrow> GroupWithSites \<Rightarrow> card_state \<times> app_state \<Rightarrow> card_state \<times> app_state" where
  "cardSaveSiteOrder api grp = (\<lambda>(c, s). (c, handleSaveSiteOrder api (gw_id grp) (card_sites c) s))"

definition handleSortClick ::
  "GroupWithSites \<Rightarrow> card_state \<times> app_state \<Rightarrow> card_state \<times> app_state" where
  "handleSortClick grp = (\<lambda>(c, s).
     if length (gw_sites grp) < 2 then
       (c\<lparr>card_snackbarMessage := ''At least 2 sites are needed for sorting'',
           card_snackbarOpen := True\<rparr>, s)
     else
       ((if isCollapsed c then c\<lparr>isCollapsed := False\<rparr> else c), startSiteSort (gw_id grp) s))"

subsection \<open>What is on screen\<close>

text \<open>
  The controls that start, commit and cancel a sort session, and the conditions under
  which the source renders them. The main view stands behind the authentication screens;
  in its header the save and cancel buttons replace the menu while \<open>sortMode\<close> is not
  \<open>None\<close>; the cards are rendered when nothing is loading, no error is shown and the
  mode is not \<open>GroupSort\<close>, and each is told \<open>'None'\<close> or \<open>'SiteSort'\<close> as its mode.
\<close>

datatype control =
    StartGroupSortItem
  | SaveGroupOrderButton
  | CancelSortButton
  | CardSortButton nat
  | CardSaveOrderButton nat

definition mainViewRendered :: "app_state \<Rightarrow> bool" where
  "mainViewRendered s = (\<not> isAuthChecking s \<and> \<not> (isAuthRequired s \<and> \<not> isAuthenticated s))"

definition cardSortMode :: "app_state \<Rightarrow> SortMode" where
  "cardSortMode s = (if sortMode s = NoneMode then NoneMode else SiteSort)"

definition isCurrentEditingGroup :: "app_state \<Rightarrow> nat \<Rightarrow> bool" where
  "isCurrentEditingGroup s groupId =
     (cardSortMode s = SiteSort \<and> currentSortingGroupId s = Some groupId)"

definition cardRendered :: "app_state \<Rightarrow> nat \<Rightarrow> bool" where
  "cardRendered s groupId =
     (mainViewRendered s \<and> \<not> loading s \<and> error s = None \<and> sortMode s \<noteq> GroupSort
      \<and> find (\<lambda>group. gw_id group = groupId) (groups s) \<noteq> None)"

fun rendered :: "control \<Rightarrow> app_state \<Rightarrow> bool" where
  "rendered StartGroupSortItem s = (mainViewRendered s \<and> sortMode s = NoneMode \<and> menuOpen s)"
| "rendered SaveGroupOrderButton s =
     (mainViewRendered s \<and> sortMode s \<noteq> NoneMode \<and> sortMode s = GroupSort)"
| "rendered CancelSortButton s = (mainViewRendered s \<and> sortMode s \<noteq> NoneMode)"
| "rendered (CardSortButton g) s =
     (cardRendered s g \<and> \<not> isCurrentEditingGroup s g \<and> cardSortMode s = NoneMode)"
| "rendered (CardSaveOrderButton g) s = (cardRendered s g \<and> isCurrentEditingGroup s g)"

text \<open>
  The screen as a whole: the App's state and the state of the card of each group id. A
  click reaches a handler only through a control that is rendered.
\<close>

record ui_state =
  app :: app_state
  cards :: "nat \<Rightarrow> card_state"

definition onCard ::
  "nat \<Rightarrow> (GroupWithSites \<Rightarrow> card_state \<times> app_state \<Rightarrow> card_state \<times> app_state)
     \<Rightarrow> ui_state \<Rightarrow> ui_state" where
  "onCard g handler u =
     (case find (\<lambda>group. gw_id group = g) (groups (app u)) of
        None \<Rightarrow> u
      | Some grp \<Rightarrow>
          (case handler grp (cards u g, app u) of
             (c, s) \<Rightarrow> \<lparr>app = s, cards = (cards u)(g := c)\<rparr>))"

fun handlerOf :: "api_client \<Rightarrow> control \<Rightarrow> ui_state \<Rightarrow> ui_state" where
  "handlerOf api StartGroupSortItem u = u\<lparr>app := startGroupSort (app u)\<rparr>"
| "handlerOf api SaveGroupOrderButton u = u\<lparr>app := handleSaveGroupOrder api (app u)\<rparr>"
| "handlerOf api CancelSortButton u = u\<lparr>app := cancelSort (app u)\<rparr>"
| "handlerOf api (CardSortButton g) u = onCard g handleSortClick u"
| "handlerOf api (CardSaveOrderButton g) u = onCard g (cardSaveSiteOrder api) u"

definition click :: "api_client \<Rightarrow> control \<Rightarrow> ui_state \<Rightarrow> ui_state" where
  "click api c u = (if rendered c (app u) then handlerOf api c u else u)"

subsection \<open>Export\<close>

definition groupJson :: "GroupWithSites \<Rightarrow> json" where
  "groupJson grp =
     JObj [(''id'', JNum (of_nat (gw_id grp))),
           (''name'', JStr (gw_name grp)),
           (''order_num'', JNum (of_int (gw_order_num grp)))]"

text \<open>A site as \<open>JSON.stringify\<close> writes it: a field that is \<open>undefined\<close> is left out.\<close>

definition present :: "(string \<times> json option) list \<Rightarrow> (string \<times> json) list" where
  "present kvs = concat (map (\<lambda>(key, v). case v of None \<Rightarrow> [] | Some w \<Rightarrow> [(key, w)]) kvs)"

definition siteJson :: "Site \<Rightarrow> json" where
  "siteJson site =
     JObj (present
       [(''id'', map_option (\<lambda>i. JNum (of_nat i)) (s_id site)),
        (''group_id'', Some (JNum (of_nat (s_group_id site)))),
        (''name'', Some (JStr (s_name site))),
        (''url'', Some (JStr (s_url site))),
        (''icon'', map_option JStr (s_icon site)),
        (''description'', map_option JStr (s_description site)),
        (''notes'', map_option JStr (s_notes site)),
        (''order_num'', Some (JNum (of_int (s_order_num site))))])"

text \<open>The \<open>forEach\<close> loop that collects the sites of all groups into one array.\<close>

fun allSites :: "GroupWithSites list \<Rightarrow> Site list \<Rightarrow> Site list" where
  "allSites [] acc = acc"
| "allSites (grp # rest) acc =
     allSites rest (if gw_sites grp \<noteq> [] then acc @ gw_sites grp else acc)"

definition exportData :: "string \<Rightarrow> app_state \<Rightarrow> json" where
  "exportData now s =
     JObj [(''groups'', JArr (map groupJson (groups s))),
           (''sites'', JArr (map siteJson (allSites (groups s) []))),
           (''configs'', JObj (map (\<lambda>(key, v). (key, JStr v)) (configs s))),
           (''version'', JStr ''1.0''),
           (''exportDate'', JStr now)]"

text \<open>
  \<open>handleExportData\<close>: the state after the call (only \<open>loading\<close> is touched) and the
  snapshot written to the downloaded file; \<open>now\<close> is the date string of the call.
\<close>

definition handleExportData :: "string \<Rightarrow> app_state \<Rightarrow> app_state \<times> json" where
  "handleExportData now s = (s\<lparr>loading := False\<rparr>, exportData now s)"

subsection \<open>Import\<close>

text \<open>The three format checks of \<open>handleImportData\<close>, in the source's order.\<close>

definition validateImportData :: "json \<Rightarrow> unit outcome" where
  "validateImportData data =
     (case getProp data ''groups'' of
        Throws e \<Rightarrow> Throws e
      | Returns g \<Rightarrow>
          if \<not> truthy g \<or> \<not> isArray g
          then Throws ''Import file format error: group data is missing''
          else
            (case getProp data ''sites'' of
               Throws e \<Rightarrow> Throws e
             | Returns st \<Rightarrow>
                 if \<not> truthy st \<or> \<not> isArray st
                 then Throws ''Import file format error: site data is missing''
                 else
                   (case getProp data ''configs'' of
                      Throws e \<Rightarrow> Throws e
                    | Returns cf \<Rightarrow>
                        if \<not> truthy cf \<or> typeof cf \<noteq> ''object''
                        then Throws ''Import file format error: config data is missing''
                        else Returns ())))"

definition DEFAULT_CONFIGS :: "(string \<times> string) list" where
  "DEFAULT_CONFIGS =
     [(''site.title'', ''Navigation''),
      (''site.name'', ''Navigation''),
      (''site.customCss'', []),
      (''site.backgroundImage'', []),
      (''site.backgroundOpacity'', ''0.15''),
      (''site.iconApi'', ''https://www.faviconextractor.com/favicon/{domain}?larger=true'')]"

definition fetchConfigs :: "api_client \<Rightarrow> app_state \<Rightarrow> app_state" where
  "fetchConfigs api s =
     (case getConfigs api of
        Throws e \<Rightarrow> s
      | Returns configsData \<Rightarrow>
          s\<lparr>configs := objSpread DEFAULT_CONFIGS configsData,
            tempConfigs := objSpread DEFAULT_CONFIGS configsData\<rparr>)"

definition importSummary :: "ImportStats \<Rightarrow> string" where
  "importSummary st =
     ''Import succeeded!'' @ [CHR 0x0A]
     @ ''Groups: found '' @ toString (groups_total st)
     @ '', created '' @ toString (groups_created st)
     @ '', merged '' @ toString (groups_merged st) @ [CHR 0x0A]
     @ ''Cards: found '' @ toString (sites_total st)
     @ '', created '' @ toString (sites_created st)
     @ '', updated '' @ toString (sites_updated st)
     @ '', skipped '' @ toString (sites_skipped st)"

definition importCaught :: "string \<Rightarrow> app_state \<Rightarrow> app_state" where
  "importCaught msg s =
     (handleError (''Parsing the import data failed: '' @ msg) s)\<lparr>importLoading := False\<rparr>"

text \<open>
  The \<open>onload\<close> callback. \<open>fileResult\<close> is what reading and parsing the file gave:
  \<open>None\<close> for an empty result, a thrown syntax error, or the parsed value. The second
  component lists the payloads handed to \<open>api.importData\<close>.
\<close>

definition importOnLoad ::
  "api_client \<Rightarrow> json outcome option \<Rightarrow> app_state \<Rightarrow> app_state \<times> json list" where
  "importOnLoad api fileResult s =
     (case fileResult of
        None \<Rightarrow> (importCaught ''Reading the file failed'' s, [])
      | Some (Throws e) \<Rightarrow> (importCaught e s, [])
      | Some (Returns data) \<Rightarrow>
          (case validateImportData data of
             Throws e \<Rightarrow> (importCaught e s, [])
           | Returns u \<Rightarrow>
               (case importData api data of
                  Throws e \<Rightarrow> (importCaught e s, [data])
                | Returns result \<Rightarrow>
                    if \<not> success result then
                      (importCaught
                         (case result_error result of
                            None \<Rightarrow> ''Import failed''
                          | Some e \<Rightarrow> if e = [] then ''Import failed'' else e) s, [data])
                    else
                      (let s1 = (case stats result of
                                   None \<Rightarrow> s
                                 | Some st \<Rightarrow> s\<lparr>importResultMessage := importSummary st,
                                                importResultOpen := True\<rparr>);
                           s2 = fetchConfigs api (fetchData api s1)
                       in (s2\<lparr>openImport := False, importLoading := False\<rparr>, [data])))))"

text \<open>
  \<open>handleImportData\<close>: without a chosen file it only reports; otherwise the file is read
  and either the reader's \<open>onerror\<close> or its \<open>onload\<close> callback runs. The outer
  \<open>finally\<close> has reset \<open>importLoading\<close> before either does.
\<close>

datatype read_event = OnError | OnLoad "json outcome option"

definition handleImportData ::
  "api_client \<Rightarrow> read_event option \<Rightarrow> app_state \<Rightarrow> app_state \<times> json list" where
  "handleImportData api importFile s =
     (case importFile of
        None \<Rightarrow> (handleError ''Please choose a file to import'' s, [])
      | Some ev \<Rightarrow>
          (let s1 = s\<lparr>importLoading := True, importError := None\<rparr>\<lparr>importLoading := False\<rparr> in
           case ev of
             OnError \<Rightarrow> ((handleError ''Reading the file failed'' s1)\<lparr>importLoading := False\<rparr>, [])
           | OnLoad fileResult \<Rightarrow> importOnLoad api fileResult s1))"

subsection \<open>Example data\<close>

text \<open>
  The state the component starts in (the initial values of its \<open>useState\<close> calls), a
  small data set, the state once that data set is loaded, and two servers: one that
  accepts every order update and one that answers \<open>false\<close> to each.
\<close>

definition initial_state :: app_state where
  "initial_state =
     \<lparr>groups = [], loading = True, error = None, sortMode = NoneMode,
      currentSortingGroupId = None, isAuthChecking = True, isAuthRequired = False,
      isAuthenticated = False, configs = DEFAULT_CONFIGS, tempConfigs = DEFAULT_CONFIGS,
      menuOpen = False, openImport = False, importLoading = False, importError = None,
      snackbarOpen = False, snackbarMessage = [], importResultOpen = False,
      importResultMessage = []\<rparr>"

definition example_site :: "nat \<Rightarrow> nat \<Rightarrow> string \<Rightarrow> int \<Rightarrow> Site" where
  "example_site i g u n =
     \<lparr>s_id = Some i, s_group_id = g, s_name = u, s_url = ''https://'' @ u, s_icon = None,
      s_description = None, s_notes = None, s_order_num = n\<rparr>"

definition dev_group :: GroupWithSites where
  "dev_group =
     \<lparr>gw_id = 1, gw_name = ''Dev'', gw_order_num = 0,
      gw_sites = [example_site 11 1 ''git.example'' 0, example_site 12 1 ''ci.example'' 1]\<rparr>"

definition news_group :: GroupWithSites where
  "news_group =
     \<lparr>gw_id = 2, gw_name = ''News'', gw_order_num = 1,
      gw_sites = [example_site 21 2 ''news.example'' 0]\<rparr>"

definition browsing_state :: app_state where
  "browsing_state =
     initial_state\<lparr>groups := [dev_group, news_group], loading := False,
       isAuthChecking := False, isAuthenticated := True\<rparr>"

definition example_card :: "GroupWithSites \<Rightarrow> card_state" where
  "example_card grp =
     \<lparr>card_sites = gw_sites grp, card_snackbarOpen = False, card_snackbarMessage = [],
      isCollapsed = False\<rparr>"

definition stored_groups :: "Group list" where
  "stored_groups =
     [\<lparr>g_id = Some 1, g_name = ''Dev'', g_order_num = 0\<rparr>,
      \<lparr>g_id = Some 2, g_name = ''News'', g_order_num = 1\<rparr>]"

definition stored_sites :: "nat \<Rightarrow> Site list" where
  "stored_sites g = (if g = 1 then gw_sites dev_group else if g = 2 then gw_sites news_group else [])"

definition accepting_api :: api_client where
  "accepting_api =
     \<lparr>updateGroupOrder = (\<lambda>orders. Returns True),
      updateSiteOrder = (\<lambda>orders. Returns True),
      getGroups = Returns stored_groups,
      getSites = (\<lambda>g. Returns (stored_sites g)),
      getConfigs = Returns [],
      importData = (\<lambda>data. Returns \<lparr>success = True, result_error = None, stats = None\<rparr>)\<rparr>"

definition refusing_api :: api_client where
  "refusing_api = accepting_api\<lparr>updateGroupOrder := (\<lambda>orders. Returns False),
     updateSiteOrder := (\<lambda>orders. Returns False)\<rparr>"

section \<open>Properties\<close>

subsection \<open>Order commit\<close>

lemma map_index_fst: "map fst (map_index (\<lambda>x i. (k x, i)) n xs) = map k xs"
  by (induction xs arbitrary: n) simp_all

lemma map_index_snd: "map snd (map_index (\<lambda>x i. (k x, i)) n xs) = [n..<n + length xs]"
  by (induction xs arbitrary: n) (simp_all add: upt_rec)

lemma map_index_key_only:
  "map_index (\<lambda>x i. (k (f x), i)) n xs = map_index (\<lambda>x i. (k x, i)) n (map f xs)"
  by (induction xs arbitrary: n) simp_all

text \<open>
  Claim C4. The pairs a commit submits carry the ids of the staged entities in buffer
  order, and their \<open>order_num\<close> values are \<open>0, 1, ..., n - 1\<close> in that order: the
  pair at position \<open>p\<close> has \<open>order_num = p\<close>. Whatever \<open>order_num\<close> the staged entities
  carried (\<open>old\<close>, \<open>old'\<close>) has no influence on the pairs. This holds for the group list
  (\<open>handleSaveGroupOrder\<close>) and for a site list (\<open>handleSaveSiteOrder\<close>).
\<close>

theorem commit_order_nums_dense:
  "map snd (groupOrders gs) = [0..<length gs]
   \<and> map fst (groupOrders gs) = map gw_id gs
   \<and> groupOrders (map (\<lambda>g. g\<lparr>gw_order_num := old g\<rparr>) gs) = groupOrders gs
   \<and> map snd (siteOrders sites) = [0..<length sites]
   \<and> map fst (siteOrders sites) = map s_id sites
   \<and> siteOrders (map (\<lambda>site. site\<lparr>s_order_num := old' site\<rparr>) sites) = siteOrders sites"
proof -
  have g: "groupOrders (map (\<lambda>g. g\<lparr>gw_order_num := old g\<rparr>) gs) = groupOrders gs"
    unfolding groupOrders_def
    using map_index_key_only [of gw_id "\<lambda>g. g\<lparr>gw_order_num := old g\<rparr>" 0 gs] by simp
  have s: "siteOrders (map (\<lambda>site. site\<lparr>s_order_num := old' site\<rparr>) sites) = siteOrders sites"
    unfolding siteOrders_def
    using map_index_key_only [of s_id "\<lambda>site. site\<lparr>s_order_num := old' site\<rparr>" 0 sites] by simp
  show ?thesis
    using g s by (simp add: groupOrders_def siteOrders_def map_index_fst map_index_snd)
qed

subsection \<open>Commit and the session\<close>

lemma fetchData_session:
  "sortMode (fetchData api s) = sortMode s"
  "currentSortingGroupId (fetchData api s) = currentSortingGroupId s"
  by (simp_all add: fetchData_def fetchFailed_def handleError_def Let_def split: outcome.splits)

text \<open>
  Claim C1, as stated, fails: when the order update answers \<open>false\<close> the handler throws
  before it reaches the two resets, and the session is still the one that was committed.
  Here the group order of the example data is committed against the refusing server, and
  so is the site order of group 1.
\<close>

theorem commit_failure_keeps_session:
  "sortMode (handleSaveGroupOrder refusing_api (startGroupSort browsing_state)) = GroupSort
   \<and> sortMode (handleSaveSiteOrder refusing_api 1 (gw_sites dev_group)
        (startSiteSort 1 browsing_state)) = SiteSort
   \<and> currentSortingGroupId (handleSaveSiteOrder refusing_api 1 (gw_sites dev_group)
        (startSiteSort 1 browsing_state)) = Some 1"
  by (simp add: handleSaveGroupOrder_def handleSaveSiteOrder_def refusing_api_def
      accepting_api_def startGroupSort_def startSiteSort_def handleError_def)

text \<open>
  Claim C1, amended. A commit (of the group order or of a site order) ends with the
  session \<open>Idle\<close> (\<open>sortMode = None\<close>, \<open>currentSortingGroupId = null\<close>) when the batched
  order update answers \<open>true\<close>. When it answers \<open>false\<close> or the call throws, an error
  message is shown to the user, and the session state and the group list are left as they
  were: the session stays active.
\<close>

theorem commit_session_outcome:
  "(updateGroupOrder api (groupOrders (groups s)) = Returns True \<longrightarrow>
      sortMode (handleSaveGroupOrder api s) = NoneMode
      \<and> currentSortingGroupId (handleSaveGroupOrder api s) = None)
   \<and> (updateGroupOrder api (groupOrders (groups s)) \<noteq> Returns True \<longrightarrow>
      sortMode (handleSaveGroupOrder api s) = sortMode s
      \<and> currentSortingGroupId (handleSaveGroupOrder api s) = currentSortingGroupId s
      \<and> groups (handleSaveGroupOrder api s) = groups s
      \<and> snackbarOpen (handleSaveGroupOrder api s)
      \<and> prefix ''Updating the group order failed: ''
           (snackbarMessage (handleSaveGroupOrder api s)))
   \<and> (updateSiteOrder api (siteOrders sites) = Returns True \<longrightarrow>
      sortMode (handleSaveSiteOrder api g sites s) = NoneMode
      \<and> currentSortingGroupId (handleSaveSiteOrder api g sites s) = None)
   \<and> (updateSiteOrder api (siteOrders sites) \<noteq> Returns True \<longrightarrow>
      sortMode (handleSaveSiteOrder api g sites s) = sortMode s
      \<and> currentSortingGroupId (handleSaveSiteOrder api g sites s) = currentSortingGroupId s
      \<and> groups (handleSaveSiteOrder api g sites s) = groups s
      \<and> snackbarOpen (handleSaveSiteOrder api g sites s)
      \<and> prefix ''Updating the site order failed: ''
           (snackbarMessage (handleSaveSiteOrder api g sites s)))"
  by (simp add: handleSaveGroupOrder_def handleSaveSiteOrder_def resetSort_def handleError_def
      fetchData_session split: outcome.splits)

theorem commit_session_outcome_witness:
  "sortMode (handleSaveGroupOrder accepting_api (startGroupSort browsing_state)) = NoneMode
   \<and> sortMode (handleSaveGroupOrder refusing_api (startGroupSort browsing_state)) = GroupSort
   \<and> snackbarOpen (handleSaveGroupOrder refusing_api (startGroupSort browsing_state))
   \<and> sortMode (handleSaveSiteOrder accepting_api 1 (gw_sites dev_group)
        (startSiteSort 1 browsing_state)) = NoneMode
   \<and> currentSortingGroupId (handleSaveSiteOrder refusing_api 1 (gw_sites dev_group)
        (startSiteSort 1 browsing_state)) = Some 1"
  using commit_session_outcome [of accepting_api "startGroupSort browsing_state"
      "gw_sites dev_group" 1]
    commit_session_outcome [of refusing_api "startGroupSort browsing_state"
      "gw_sites dev_group" 1]
    commit_session_outcome [of accepting_api "startSiteSort 1 browsing_state"
      "gw_sites dev_group" 1]
    commit_session_outcome [of refusing_api "startSiteSort 1 browsing_state"
      "gw_sites dev_group" 1]
  by (simp add: refusing_api_def accepting_api_def startGroupSort_def startSiteSort_def)

subsection \<open>Moving an item\<close>

lemma digit_inj: "a < 10 \<Longrightarrow> b < 10 \<Longrightarrow> digit a = digit b \<Longrightarrow> a = b"
proof -
  assume a: "a < 10" and b: "b < 10" and e: "digit a = digit b"
  have "of_char (digit a) = (48 + a) mod 256" "of_char (digit b) = (48 + b) mod 256"
    by (simp_all only: digit_def of_char_of)
  with e have "(48 + a) mod 256 = (48 + b) mod 256" by simp
  with a b show "a = b" by simp
qed

lemma toString_nonempty: "toString n \<noteq> []"
  by (subst toString.simps) simp

lemma toString_small: "n < 10 \<Longrightarrow> toString n = [digit n]"
  by (subst toString.simps) simp

lemma toString_big: "\<not> n < 10 \<Longrightarrow> toString n = toString (n div 10) @ [digit (n mod 10)]"
  by (subst toString.simps) simp

lemma toString_inj: "toString n = toString m \<Longrightarrow> n = m"
proof (induction n arbitrary: m rule: toString.induct)
  case (1 n)
  show ?case
  proof (cases "n < 10")
    case True
    note n = this
    show ?thesis
    proof (cases "m < 10")
      case True
      with n "1.prems" show ?thesis by (simp add: toString_small digit_inj)
    next
      case False
      with n "1.prems" toString_nonempty [of "m div 10"] show ?thesis
        by (simp add: toString_small toString_big)
    qed
  next
    case False
    note n = this
    show ?thesis
    proof (cases "m < 10")
      case True
      with n "1.prems" toString_nonempty [of "n div 10"] show ?thesis
        by (simp add: toString_small toString_big)
    next
      case False
      with n "1.prems" have e: "toString (n div 10) = toString (m div 10)"
        and d: "digit (n mod 10) = digit (m mod 10)"
        by (simp_all add: toString_big)
      from "1.IH" [OF n e] have "n div 10 = m div 10" .
      moreover from d have "n mod 10 = m mod 10" by (simp add: digit_inj)
      ultimately show ?thesis by (metis div_mult_mod_eq)
    qed
  qed
qed

lemma toString_digits: "c \<in> set (toString n) \<Longrightarrow> \<exists>d<10. c = digit d"
proof (induction n rule: toString.induct)
  case (1 n)
  show ?case
  proof (cases "n < 10")
    case True
    with "1.prems" show ?thesis by (auto simp: toString_small)
  next
    case False
    with "1.prems" have "c \<in> set (toString (n div 10)) \<or> c = digit (n mod 10)"
      by (auto simp: toString_big)
    then show ?thesis
    proof
      assume "c \<in> set (toString (n div 10))"
      with "1.IH" [OF False] show ?thesis .
    next
      assume "c = digit (n mod 10)"
      then show ?thesis by (intro exI [of _ "n mod 10"]) simp
    qed
  qed
qed

lemma toString_not_undefined: "toString n \<noteq> ''undefined''"
proof
  assume "toString n = ''undefined''"
  then have "CHR ''u'' \<in> set (toString n)" by simp
  then obtain d where d: "d < 10" "CHR ''u'' = digit d" using toString_digits by blast
  then have "of_char (CHR ''u'') = (48 + d) mod 256" by (simp only: digit_def of_char_of)
  with d(1) show False by simp
qed

lemma siteKey_inj: "siteKey a = siteKey b \<Longrightarrow> s_id a = s_id b"
  using toString_not_undefined toString_inj
  by (auto simp: siteKey_def split: option.splits)

lemma findIndex_at:
  "distinct (map k xs) \<Longrightarrow> i < length xs \<Longrightarrow> findIndex (\<lambda>x. k x = k (xs ! i)) xs = Some i"
proof (induction xs arbitrary: i)
  case Nil
  then show ?case by simp
next
  case (Cons x xs)
  show ?case
  proof (cases i)
    case 0
    then show ?thesis by simp
  next
    case (Suc i')
    with Cons.prems have "k x \<noteq> k (xs ! i')" by (auto simp: image_iff)
    with Cons Suc show ?thesis by simp
  qed
qed

lemma arrayMove_valid:
  "i < length xs \<Longrightarrow>
   arrayMove xs i j =
     take j (take i xs @ drop (Suc i) xs) @ xs ! i # drop j (take i xs @ drop (Suc i) xs)"
  by (simp add: arrayMove_def Let_def Cons_nth_drop_Suc [symmetric])

lemma arrayMove_moved:
  assumes i: "i < length xs" and j: "j < length xs"
  shows "mset (arrayMove xs i j) = mset xs"
    and "arrayMove xs i j ! j = xs ! i"
    and "take j (arrayMove xs i j) @ drop (Suc j) (arrayMove xs i j) = take i xs @ drop (Suc i) xs"
    and "i = j \<Longrightarrow> arrayMove xs i j = xs"
proof -
  define rest where "rest = take i xs @ drop (Suc i) xs"
  have len: "j \<le> length rest" using i j by (simp add: rest_def)
  have am: "arrayMove xs i j = take j rest @ xs ! i # drop j rest"
    using i by (simp add: arrayMove_valid rest_def)
  have "mset (take j rest @ xs ! i # drop j rest) = add_mset (xs ! i) (mset rest)"
    by (metis append_take_drop_id mset.simps(2) mset_append union_mset_add_mset_right)
  also have "\<dots> = mset (take i xs @ xs ! i # drop (Suc i) xs)" by (simp add: rest_def)
  also have "\<dots> = mset xs" using i by (simp add: id_take_nth_drop [symmetric])
  finally show "mset (arrayMove xs i j) = mset xs" by (simp add: am)
  show "arrayMove xs i j ! j = xs ! i"
    using len by (simp add: am nth_append)
  show "take j (arrayMove xs i j) @ drop (Suc j) (arrayMove xs i j) = take i xs @ drop (Suc i) xs"
    using len by (simp add: am rest_def [symmetric])
  show "arrayMove xs i j = xs" if "i = j"
  proof -
    have "arrayMove xs i i = xs"
      using i by (simp add: arrayMove_valid id_take_nth_drop [symmetric])
    with that show ?thesis by simp
  qed
qed

text \<open>
  Dragging the item at position \<open>i\<close> over the item at position \<open>j\<close>: with distinct ids
  the two \<open>findIndex\<close> calls find \<open>i\<close> and \<open>j\<close>, and the handler stores
  \<open>arrayMove list i j\<close> (for \<open>i = j\<close> the identifiers are equal and nothing is stored).
\<close>

lemma dragged_indices:
  assumes inj: "\<And>a b. key a = key b \<Longrightarrow> k a = k b"
    and d: "distinct (map k xs)" and i: "i < length xs" and j: "j < length xs"
  shows "findIndex (\<lambda>x. key x = key (xs ! i)) xs = Some i"
    and "findIndex (\<lambda>x. key x = key (xs ! j)) xs = Some j"
    and "key (xs ! i) = key (xs ! j) \<longleftrightarrow> i = j"
proof -
  have "inj_on key (set xs)"
  proof (rule inj_onI)
    fix a b assume "a \<in> set xs" "b \<in> set xs" "key a = key b"
    then have "k a = k b" using inj by blast
    moreover from d have "inj_on k (set xs)" by (simp add: distinct_map)
    ultimately show "a = b" using \<open>a \<in> set xs\<close> \<open>b \<in> set xs\<close> by (simp add: inj_on_def)
  qed
  moreover from d have "distinct xs" by (simp add: distinct_map)
  ultimately have dk: "distinct (map key xs)" by (simp add: distinct_map)
  show "findIndex (\<lambda>x. key x = key (xs ! i)) xs = Some i"
    using dk i by (rule findIndex_at)
  show "findIndex (\<lambda>x. key x = key (xs ! j)) xs = Some j"
    using dk j by (rule findIndex_at)
  have "(map key xs ! i = map key xs ! j) = (i = j)"
    using dk i j by (intro nth_eq_iff_index_eq) simp_all
  with i j show "key (xs ! i) = key (xs ! j) \<longleftrightarrow> i = j" by simp
qed

lemma handleDragEnd_moves:
  assumes "distinct (map gw_id (groups s))" "i < length (groups s)" "j < length (groups s)"
  shows "groups (handleDragEnd \<lparr>active = toString (gw_id (groups s ! i)),
           over = Some (toString (gw_id (groups s ! j)))\<rparr> s) = arrayMove (groups s) i j"
proof -
  note di = dragged_indices [of "\<lambda>g. toString (gw_id g)" gw_id, OF toString_inj assms]
  show ?thesis
  proof (cases "i = j")
    case True
    with assms(2) show ?thesis by (simp add: handleDragEnd_def arrayMove_moved(4))
  next
    case False
    with di show ?thesis by (simp add: handleDragEnd_def)
  qed
qed

lemma handleSiteDragEnd_moves:
  assumes "distinct (map s_id (card_sites c))" "i < length (card_sites c)"
    "j < length (card_sites c)"
  shows "card_sites (handleSiteDragEnd \<lparr>active = siteKey (card_sites c ! i),
           over = Some (siteKey (card_sites c ! j))\<rparr> c) = arrayMove (card_sites c) i j"
proof -
  note di = dragged_indices [of siteKey s_id, OF siteKey_inj assms]
  show ?thesis
  proof (cases "i = j")
    case True
    with assms(2) show ?thesis by (simp add: handleSiteDragEnd_def arrayMove_moved(4))
  next
    case False
    with di show ?thesis by (simp add: handleSiteDragEnd_def)
  qed
qed

text \<open>
  Claim C6. For a buffer of any length and valid positions \<open>i\<close> and \<open>j\<close>, the move
  \<open>arrayMove buffer i j\<close> is a permutation of the buffer (same elements, same
  multiplicities), has the moved element at position \<open>j\<close>, and, with the moved element
  taken out, is the buffer with that element taken out (the others keep their relative
  order); for \<open>i = j\<close> the buffer is unchanged. Both drag handlers perform this move:
  where ids are distinct, dragging the item at position \<open>a\<close> onto the item at position
  \<open>b\<close> stores \<open>arrayMove list a b\<close>, in the group list (\<open>handleDragEnd\<close>) and in
  a card's site list (\<open>handleSiteDragEnd\<close>).
\<close>

theorem move_is_permutation:
  assumes "i < length buffer" "j < length buffer"
  shows "mset (arrayMove buffer i j) = mset buffer
     \<and> arrayMove buffer i j ! j = buffer ! i
     \<and> take j (arrayMove buffer i j) @ drop (Suc j) (arrayMove buffer i j)
         = take i buffer @ drop (Suc i) buffer
     \<and> (i = j \<longrightarrow> arrayMove buffer i j = buffer)
     \<and> (distinct (map gw_id (groups s)) \<and> a < length (groups s) \<and> b < length (groups s)
          \<longrightarrow> groups (handleDragEnd \<lparr>active = toString (gw_id (groups s ! a)),
                 over = Some (toString (gw_id (groups s ! b)))\<rparr> s)
               = arrayMove (groups s) a b)
     \<and> (distinct (map s_id (card_sites c)) \<and> a' < length (card_sites c)
          \<and> b' < length (card_sites c)
          \<longrightarrow> card_sites (handleSiteDragEnd \<lparr>active = siteKey (card_sites c ! a'),
                 over = Some (siteKey (card_sites c ! b'))\<rparr> c)
               = arrayMove (card_sites c) a' b')"
  using arrayMove_moved [OF assms] handleDragEnd_moves [of s a b]
    handleSiteDragEnd_moves [of c a' b']
  by blast

theorem move_is_permutation_witness:
  "distinct (map gw_id (groups browsing_state))
   \<and> mset (groups (handleDragEnd \<lparr>active = toString 1, over = Some (toString 2)\<rparr>
        browsing_state)) = mset (groups browsing_state)
   \<and> groups (handleDragEnd \<lparr>active = toString 1, over = Some (toString 2)\<rparr>
        browsing_state) ! 1 = dev_group
   \<and> card_sites (handleSiteDragEnd
        \<lparr>active = siteKey (example_site 12 1 ''ci.example'' 1),
         over = Some (siteKey (example_site 11 1 ''git.example'' 0))\<rparr>
        (example_card dev_group)) = arrayMove (card_sites (example_card dev_group)) 1 0"
proof -
  have g: "distinct (map gw_id (groups browsing_state))" "0 < length (groups browsing_state)"
    "1 < length (groups browsing_state)"
    by (simp_all add: browsing_state_def initial_state_def dev_group_def news_group_def)
  have c: "distinct (map s_id (card_sites (example_card dev_group)))"
    "1 < length (card_sites (example_card dev_group))"
    "0 < length (card_sites (example_card dev_group))"
    by (simp_all add: example_card_def dev_group_def example_site_def)
  have gs: "groups browsing_state = [dev_group, news_group]"
    by (simp add: browsing_state_def initial_state_def)
  have cs: "card_sites (example_card dev_group)
      = [example_site 11 1 ''git.example'' 0, example_site 12 1 ''ci.example'' 1]"
    by (simp add: example_card_def dev_group_def)
  have ids: "gw_id dev_group = 1" "gw_id news_group = 2"
    by (simp_all add: dev_group_def news_group_def)
  from move_is_permutation [OF g(2,3), of browsing_state 0 1 "example_card dev_group" 1 0] g c
  have "mset (arrayMove (groups browsing_state) 0 1) = mset (groups browsing_state)"
    "arrayMove (groups browsing_state) 0 1 ! 1 = groups browsing_state ! 0"
    "groups (handleDragEnd \<lparr>active = toString (gw_id (groups browsing_state ! 0)),
       over = Some (toString (gw_id (groups browsing_state ! 1)))\<rparr> browsing_state)
     = arrayMove (groups browsing_state) 0 1"
    "card_sites (handleSiteDragEnd
        \<lparr>active = siteKey (card_sites (example_card dev_group) ! 1),
         over = Some (siteKey (card_sites (example_card dev_group) ! 0))\<rparr>
        (example_card dev_group)) = arrayMove (card_sites (example_card dev_group)) 1 0"
    by blast+
  with g(1) show ?thesis by (simp add: gs cs ids)
qed

subsection \<open>Exclusive sessions\<close>

lemma save_group_session:
  "(sortMode (handleSaveGroupOrder api s) = NoneMode
      \<and> currentSortingGroupId (handleSaveGroupOrder api s) = None)
   \<or> (sortMode (handleSaveGroupOrder api s) = sortMode s
      \<and> currentSortingGroupId (handleSaveGroupOrder api s) = currentSortingGroupId s)"
  by (simp add: handleSaveGroupOrder_def resetSort_def handleError_def split: outcome.splits)

lemma save_site_session:
  "(sortMode (handleSaveSiteOrder api g sites s) = NoneMode
      \<and> currentSortingGroupId (handleSaveSiteOrder api g sites s) = None)
   \<or> (sortMode (handleSaveSiteOrder api g sites s) = sortMode s
      \<and> currentSortingGroupId (handleSaveSiteOrder api g sites s) = currentSortingGroupId s)"
  by (simp add: handleSaveSiteOrder_def resetSort_def handleError_def split: outcome.splits)

lemma start_controls_hidden:
  "sortMode s \<noteq> NoneMode \<Longrightarrow> \<not> rendered StartGroupSortItem s"
  "sortMode s \<noteq> NoneMode \<Longrightarrow> \<not> rendered (CardSortButton g) s"
  by (simp_all add: cardSortMode_def)

lemma onCard_save_app:
  "app (onCard g (cardSaveSiteOrder api) u) = app u
   \<or> (\<exists>sites. app (onCard g (cardSaveSiteOrder api) u) = handleSaveSiteOrder api g sites (app u))"
proof (cases "find (\<lambda>group. gw_id group = g) (groups (app u))")
  case None
  then show ?thesis by (simp add: onCard_def)
next
  case (Some grp)
  then have "gw_id grp = g" by (auto simp: find_Some_iff)
  with Some show ?thesis by (auto simp: onCard_def cardSaveSiteOrder_def)
qed

text \<open>
  Claim C7. The session is one pair \<open>(sortMode, currentSortingGroupId)\<close>, so at most one
  staging buffer is in use. While a session is active (\<open>sortMode\<close> is \<open>GroupSort\<close> or
  \<open>SiteSort\<close>) the two controls that start a session, the menu entry for the group sort
  and the sort button of any group's card, are not on screen, and a click on either
  changes nothing. More generally a click on any control during a session either leaves
  the session as it is or ends it (\<open>Idle\<close>): it never replaces it by another one.
\<close>

theorem session_exclusive:
  assumes "sortMode (app u) \<noteq> NoneMode"
  shows "click api StartGroupSortItem u = u
     \<and> click api (CardSortButton g) u = u
     \<and> ((sortMode (app (click api c u)) = NoneMode
          \<and> currentSortingGroupId (app (click api c u)) = None)
        \<or> (sortMode (app (click api c u)) = sortMode (app u)
          \<and> currentSortingGroupId (app (click api c u)) = currentSortingGroupId (app u)))"
proof -
  have starts: "click api StartGroupSortItem u = u" "click api (CardSortButton g) u = u" for g
    using assms start_controls_hidden [of "app u"]
    by (simp_all add: click_def del: rendered.simps)
  have "(sortMode (app (click api c u)) = NoneMode
          \<and> currentSortingGroupId (app (click api c u)) = None)
        \<or> (sortMode (app (click api c u)) = sortMode (app u)
          \<and> currentSortingGroupId (app (click api c u)) = currentSortingGroupId (app u))"
  proof (cases c)
    case StartGroupSortItem
    with starts show ?thesis by simp
  next
    case SaveGroupOrderButton
    with save_group_session [of api "app u"] show ?thesis by (auto simp: click_def)
  next
    case CancelSortButton
    then show ?thesis by (simp add: click_def cancelSort_def)
  next
    case (CardSortButton g')
    with starts show ?thesis by simp
  next
    case (CardSaveOrderButton g')
    from onCard_save_app [of g' api u] show ?thesis
    proof
      assume "app (onCard g' (cardSaveSiteOrder api) u) = app u"
      with CardSaveOrderButton show ?thesis by (simp add: click_def)
    next
      assume "\<exists>sites. app (onCard g' (cardSaveSiteOrder api) u)
                 = handleSaveSiteOrder api g' sites (app u)"
      then obtain sites where "app (onCard g' (cardSaveSiteOrder api) u)
                 = handleSaveSiteOrder api g' sites (app u)" ..
      with CardSaveOrderButton save_site_session [of api g' sites "app u"] show ?thesis
        by (auto simp: click_def)
    qed
  qed
  with starts show ?thesis by simp
qed

theorem session_exclusive_witness:
  "sortMode (app \<lparr>app = startGroupSort browsing_state, cards = (\<lambda>g. example_card dev_group)\<rparr>)
     \<noteq> NoneMode
   \<and> sortMode (app (click refusing_api (CardSortButton 1)
        \<lparr>app = startGroupSort browsing_state, cards = (\<lambda>g. example_card dev_group)\<rparr>))
      = GroupSort
   \<and> sortMode (app (click refusing_api StartGroupSortItem
        \<lparr>app = startSiteSort 2 browsing_state, cards = (\<lambda>g. example_card dev_group)\<rparr>))
      = SiteSort
   \<and> currentSortingGroupId (app (click refusing_api StartGroupSortItem
        \<lparr>app = startSiteSort 2 browsing_state, cards = (\<lambda>g. example_card dev_group)\<rparr>))
      = Some 2"
proof -
  have a: "sortMode (app \<lparr>app = startGroupSort browsing_state,
      cards = (\<lambda>g. example_card dev_group)\<rparr>) \<noteq> NoneMode"
    by (simp add: startGroupSort_def)
  have b: "sortMode (app \<lparr>app = startSiteSort 2 browsing_state,
      cards = (\<lambda>g. example_card dev_group)\<rparr>) \<noteq> NoneMode"
    by (simp add: startSiteSort_def)
  from session_exclusive [OF a, of refusing_api 1 CancelSortButton]
    session_exclusive [OF b, of refusing_api 1 CancelSortButton] a
  show ?thesis by (simp add: startGroupSort_def startSiteSort_def)
qed

subsection \<open>A sort needs two sites\<close>

text \<open>
  Claim C8. For a group with fewer than two sites the sort button's handler does not
  start a session: the App's state is returned as it was (so the session stays as it was,
  and it was \<open>Idle\<close>, the button being on screen only then), the card's list \<open>sites\<close>
  is untouched, and the card shows the warning that at least two sites are needed.
\<close>

theorem sort_click_needs_two_sites:
  assumes "length (gw_sites grp) < 2"
  shows "handleSortClick grp (c, s) =
       (c\<lparr>card_snackbarMessage := ''At least 2 sites are needed for sorting'',
          card_snackbarOpen := True\<rparr>, s)
     \<and> (find (\<lambda>group. gw_id group = g) (groups (app u)) = Some grp
          \<and> rendered (CardSortButton g) (app u) \<longrightarrow>
        app (click api (CardSortButton g) u) = app u
        \<and> sortMode (app (click api (CardSortButton g) u)) = NoneMode
        \<and> card_sites (cards (click api (CardSortButton g) u) g) = card_sites (cards u g)
        \<and> card_snackbarOpen (cards (click api (CardSortButton g) u) g)
        \<and> card_snackbarMessage (cards (click api (CardSortButton g) u) g)
            = ''At least 2 sites are needed for sorting'')"
proof -
  have h: "handleSortClick grp (c, s) =
       (c\<lparr>card_snackbarMessage := ''At least 2 sites are needed for sorting'',
          card_snackbarOpen := True\<rparr>, s)" for c s
    using assms by (simp add: handleSortClick_def)
  have idle: "rendered (CardSortButton g) (app u) \<Longrightarrow> sortMode (app u) = NoneMode"
    by (simp add: cardSortMode_def split: if_splits)
  show ?thesis
    using idle by (auto simp: h click_def onCard_def)
qed

theorem sort_click_needs_two_sites_witness:
  "length (gw_sites news_group) < 2
   \<and> rendered (CardSortButton 2) browsing_state
   \<and> sortMode (app (click accepting_api (CardSortButton 2)
        \<lparr>app = browsing_state, cards = (\<lambda>g. example_card news_group)\<rparr>)) = NoneMode
   \<and> card_snackbarOpen (cards (click accepting_api (CardSortButton 2)
        \<lparr>app = browsing_state, cards = (\<lambda>g. example_card news_group)\<rparr>) 2)"
proof -
  have l: "length (gw_sites news_group) < 2" by (simp add: news_group_def)
  have f: "find (\<lambda>group. gw_id group = 2) (groups browsing_state) = Some news_group"
    by (simp add: browsing_state_def initial_state_def dev_group_def news_group_def)
  have r: "rendered (CardSortButton 2) browsing_state"
    using f by (simp add: cardRendered_def mainViewRendered_def isCurrentEditingGroup_def
        cardSortMode_def) (simp add: browsing_state_def initial_state_def)
  have m: "sortMode browsing_state = NoneMode"
    by (simp add: browsing_state_def initial_state_def)
  from sort_click_needs_two_sites [OF l, of "example_card news_group" browsing_state 2
      "\<lparr>app = browsing_state, cards = (\<lambda>g. example_card news_group)\<rparr>" accepting_api] l f r m
  show ?thesis by (simp del: rendered.simps)
qed

subsection \<open>Where the group list is rearranged\<close>

lemma drag_two_groups:
  "groups (handleDragEnd \<lparr>active = toString 1, over = Some (toString 2)\<rparr>
     (startGroupSort browsing_state)) = [news_group, dev_group]"
proof -
  have g: "groups (startGroupSort browsing_state) = [dev_group, news_group]"
    by (simp add: startGroupSort_def browsing_state_def initial_state_def)
  have "distinct (map gw_id (groups (startGroupSort browsing_state)))"
    "0 < length (groups (startGroupSort browsing_state))"
    "1 < length (groups (startGroupSort browsing_state))"
    by (simp_all add: g dev_group_def news_group_def)
  from handleDragEnd_moves [OF this] show ?thesis
    by (simp add: g dev_group_def news_group_def arrayMove_def)
qed

lemma drag_keeps_session:
  "sortMode (handleDragEnd ev s) = sortMode s"
  "currentSortingGroupId (handleDragEnd ev s) = currentSortingGroupId s"
  by (simp_all add: handleDragEnd_def split: option.splits)

lemma dev_news_differ: "[news_group, dev_group] \<noteq> [dev_group, news_group]"
  by (simp add: dev_group_def news_group_def)

text \<open>
  Claim C2 at a concrete session. The example data is loaded, a group sort is started,
  group 1 is dragged over group 2, and the commit is answered \<open>false\<close>. The handler for
  the drag has written the moved list into \<open>groups\<close>, the list every view renders from,
  and nothing on the failure path reads the groups back: the group list after the failed
  commit is the staged order, not the order before the session.
\<close>

theorem failed_commit_shows_staged_order:
  "groups (handleSaveGroupOrder refusing_api
       (handleDragEnd \<lparr>active = toString 1, over = Some (toString 2)\<rparr>
          (startGroupSort browsing_state))) = [news_group, dev_group]
   \<and> groups browsing_state = [dev_group, news_group]
   \<and> [news_group, dev_group] \<noteq> groups browsing_state"
proof -
  have "updateGroupOrder refusing_api orders = Returns False" for orders
    by (simp add: refusing_api_def accepting_api_def)
  then have "groups (handleSaveGroupOrder refusing_api s) = groups s" for s
    by (simp add: handleSaveGroupOrder_def handleError_def)
  moreover have "groups browsing_state = [dev_group, news_group]"
    by (simp add: browsing_state_def initial_state_def)
  ultimately show ?thesis using drag_two_groups dev_news_differ by simp
qed

text \<open>
  Claim C3 at a concrete session. The same drag, followed by cancel: \<open>cancelSort\<close> resets
  the session only, so the group list stays in the staged order. The drags of a site sort
  change the card's own list and leave \<open>groups\<close> alone (the card keeps that list after
  a cancel, but renders \<open>group.sites\<close> outside its session).
\<close>

theorem cancel_keeps_staged_group_order:
  "groups (cancelSort
       (handleDragEnd \<lparr>active = toString 1, over = Some (toString 2)\<rparr>
          (startGroupSort browsing_state))) = [news_group, dev_group]
   \<and> sortMode (cancelSort
       (handleDragEnd \<lparr>active = toString 1, over = Some (toString 2)\<rparr>
          (startGroupSort browsing_state))) = NoneMode
   \<and> groups browsing_state = [dev_group, news_group]
   \<and> [news_group, dev_group] \<noteq> groups browsing_state"
proof -
  have "groups (cancelSort s) = groups s" "sortMode (cancelSort s) = NoneMode" for s
    by (simp_all add: cancelSort_def)
  moreover have "groups browsing_state = [dev_group, news_group]"
    by (simp add: browsing_state_def initial_state_def)
  ultimately show ?thesis using drag_two_groups dev_news_differ by simp
qed

subsection \<open>Import validation\<close>

text \<open>
  The first two checks do what the claim says: a payload whose \<open>groups\<close> (or whose
  \<open>sites\<close>, once \<open>groups\<close> is an array) is missing or not an array is rejected with the
  message of that section, and nothing is handed to \<open>api.importData\<close>.
\<close>

lemma import_rejects_bad_groups:
  "getProp data ''groups'' = Returns g \<Longrightarrow> \<not> isArray g \<Longrightarrow>
   validateImportData data = Throws ''Import file format error: group data is missing''
   \<and> snd (importOnLoad api (Some (Returns data)) s) = []"
  by (simp add: validateImportData_def importOnLoad_def)

lemma import_rejects_bad_sites:
  "getProp data ''groups'' = Returns g \<Longrightarrow> isArray g \<Longrightarrow>
   getProp data ''sites'' = Returns st \<Longrightarrow> \<not> isArray st \<Longrightarrow>
   validateImportData data = Throws ''Import file format error: site data is missing''
   \<and> snd (importOnLoad api (Some (Returns data)) s) = []"
  by (cases g rule: isArray.cases) (simp_all add: validateImportData_def importOnLoad_def)

text \<open>
  Claim C9 at a concrete payload. In \<open>{"groups": [], "sites": [], "configs": []}\<close> the
  \<open>configs\<close> section is an array, not a key-value mapping. An array is truthy and its
  \<open>typeof\<close> is \<open>'object'\<close>, so the third check lets it through: validation succeeds and
  the payload is handed to \<open>api.importData\<close>.
\<close>

theorem import_accepts_array_configs:
  "validateImportData
     (JObj [(''groups'', JArr []), (''sites'', JArr []), (''configs'', JArr [])]) = Returns ()
   \<and> snd (importOnLoad accepting_api
        (Some (Returns (JObj [(''groups'', JArr []), (''sites'', JArr []), (''configs'', JArr [])])))
        browsing_state)
     = [JObj [(''groups'', JArr []), (''sites'', JArr []), (''configs'', JArr [])]]"
  by (simp add: validateImportData_def importOnLoad_def accepting_api_def Let_def)

theorem import_accepts_array_configs_witness:
  "truthy (Some (JArr [])) \<and> typeof (Some (JArr [])) = ''object''
   \<and> validateImportData
        (JObj [(''groups'', JArr []), (''sites'', JArr []), (''configs'', JArr [])]) = Returns ()"
  using import_accepts_array_configs by simp

subsection \<open>Export\<close>

lemma allSites_concat: "allSites gs acc = acc @ concat (map gw_sites gs)"
  by (induction gs arbitrary: acc) simp_all

text \<open>
  Claim C10. For every state of the App the exported snapshot has, under \<open>groups\<close>, an
  array with one object per group whose keys are exactly \<open>id\<close>, \<open>name\<close> and
  \<open>order_num\<close>; under \<open>sites\<close>, one array with the sites of all groups in order; under
  \<open>configs\<close>, an object. It passes the format validation of the import, and the import
  hands it to \<open>api.importData\<close>.
\<close>

theorem export_passes_import_validation:
  "getProp (snd (handleExportData now s)) ''groups'' = Returns (Some (JArr (map groupJson (groups s))))
   \<and> (\<exists>i n k. groupJson grp = JObj [(''id'', i), (''name'', n), (''order_num'', k)])
   \<and> getProp (snd (handleExportData now s)) ''sites''
       = Returns (Some (JArr (map siteJson (concat (map gw_sites (groups s))))))
   \<and> getProp (snd (handleExportData now s)) ''configs''
       = Returns (Some (JObj (map (\<lambda>(key, v). (key, JStr v)) (configs s))))
   \<and> validateImportData (snd (handleExportData now s)) = Returns ()
   \<and> snd (importOnLoad api (Some (Returns (snd (handleExportData now s)))) s')
       = [snd (handleExportData now s)]"
proof -
  have v: "validateImportData (exportData now s) = Returns ()"
    by (simp add: validateImportData_def exportData_def)
  have "snd (importOnLoad api (Some (Returns (exportData now s))) s') = [exportData now s]"
    by (simp add: importOnLoad_def v Let_def split: outcome.splits)
  with v show ?thesis
    by (simp add: handleExportData_def exportData_def groupJson_def allSites_concat)
qed

theorem export_passes_import_validation_witness:
  "validateImportData (snd (handleExportData ''2025-01-01T00:00:00.000Z'' browsing_state))
     = Returns ()
   \<and> snd (importOnLoad accepting_api
        (Some (Returns (snd (handleExportData ''2025-01-01T00:00:00.000Z'' browsing_state))))
        browsing_state)
     = [snd (handleExportData ''2025-01-01T00:00:00.000Z'' browsing_state)]"
  using export_passes_import_validation
    [of "''2025-01-01T00:00:00.000Z''" browsing_state dev_group accepting_api browsing_state]
  by simp

end
